theory Spec2Isabelle
  imports Main "HOL-Library.Char_ord" "HOL-Library.List_Lexorder"
begin

section \<open>JavaScript values\<close>

text \<open>
  The utility functions of \<^verbatim>\<open>bugUtils.js\<close> are untyped: any JavaScript value can be
  passed. The values considered here are the ones a JSON request body can hold, together
  with \<^verbatim>\<open>undefined\<close> and \<^verbatim>\<open>NaN\<close>: primitives, arrays and plain objects with data
  properties (an association list; the first binding of a key is the property). Numbers
  are integers or \<^verbatim>\<open>NaN\<close>; the code only tests their truthiness and turns them into
  property keys. Strings are lists of 8-bit characters.
\<close>

datatype jsval =
    JUndefined
  | JNull
  | JBool bool
  | JNum int
  | JNaN
  | JStr string
  | JArr "jsval list"
  | JObj "(string \<times> jsval) list"

text \<open>
  A thrown exception: its \<^verbatim>\<open>name\<close> and its \<^verbatim>\<open>message\<close>. The message of an error
  that the engine throws (a TypeError) is the engine's wording, paraphrased here; the
  properties below depend on the name alone.
\<close>

datatype jserror = Thrown (name: string) (message: string)

text \<open>Truthiness (\<^verbatim>\<open>!v\<close> is its negation): objects and arrays are always truthy.\<close>

fun truthy :: "jsval \<Rightarrow> bool" where
  "truthy JUndefined = False"
| "truthy JNull = False"
| "truthy (JBool b) = b"
| "truthy (JNum n) = (n \<noteq> 0)"
| "truthy JNaN = False"
| "truthy (JStr s) = (s \<noteq> [])"
| "truthy (JArr xs) = True"
| "truthy (JObj fs) = True"

text \<open>\<^verbatim>\<open>typeof v === 'string'\<close>.\<close>

fun isString :: "jsval \<Rightarrow> bool" where
  "isString (JStr s) = True"
| "isString v = False"

text \<open>
  \<^verbatim>\<open>Array.prototype.includes\<close> on an array literal of strings: the elements are compared
  with the argument by SameValueZero, which holds between a string and a value only when
  the value is the same string.
\<close>

fun sameString :: "string \<Rightarrow> jsval \<Rightarrow> bool" where
  "sameString s (JStr t) = (s = t)"
| "sameString s v = False"

fun includesJS :: "string list \<Rightarrow> jsval \<Rightarrow> bool" where
  "includesJS [] v = False"
| "includesJS (x # xs) v = (sameString x v \<or> includesJS xs v)"

subsection \<open>Property keys\<close>

text \<open>
  \<^verbatim>\<open>obj[v]\<close> converts \<^verbatim>\<open>v\<close> to a property key first. A primitive becomes its string
  (an integer its decimal digits; the exponent notation of very large numbers is not
  modelled, and neither form is a key of the objects read here);
  an array becomes the strings of its elements joined by commas (\<^verbatim>\<open>null\<close> and
  \<^verbatim>\<open>undefined\<close> elements give the empty string); a plain object becomes
  \<^verbatim>\<open>[object Object]\<close> through the inherited \<^verbatim>\<open>toString\<close>, unless an own data
  property \<^verbatim>\<open>toString\<close> shadows it: that property is not callable, the inherited
  \<^verbatim>\<open>valueOf\<close> returns the object itself, and the conversion throws a TypeError.
\<close>

fun digitsOf :: "nat \<Rightarrow> string" where
  "digitsOf n =
     (if n < 10 then [''0123456789'' ! n]
      else digitsOf (n div 10) @ [''0123456789'' ! (n mod 10)])"

definition numberToString :: "int \<Rightarrow> string" where
  "numberToString n = (if n < 0 then CHR ''-'' # digitsOf (nat (- n)) else digitsOf (nat n))"

definition cannotConvert :: jserror where
  "cannotConvert = Thrown ''TypeError'' ''Cannot convert object to primitive value''"

fun toStringJS :: "jsval \<Rightarrow> jserror + string"
  and joinJS :: "jsval list \<Rightarrow> jserror + string"
  and elementJS :: "jsval \<Rightarrow> jserror + string" where
  "toStringJS JUndefined = Inr ''undefined''"
| "toStringJS JNull = Inr ''null''"
| "toStringJS (JBool b) = Inr (if b then ''true'' else ''false'')"
| "toStringJS (JNum n) = Inr (numberToString n)"
| "toStringJS JNaN = Inr ''NaN''"
| "toStringJS (JStr s) = Inr s"
| "toStringJS (JArr xs) = joinJS xs"
| "toStringJS (JObj fs) =
     (if ''toString'' \<in> set (map fst fs) then Inl cannotConvert
      else Inr ''[object Object]'')"
| "joinJS [] = Inr []"
| "joinJS [x] = elementJS x"
| "joinJS (x # y # ys) =
     (case elementJS x of
        Inl e \<Rightarrow> Inl e
      | Inr s \<Rightarrow> (case joinJS (y # ys) of Inl e \<Rightarrow> Inl e | Inr t \<Rightarrow> Inr (s @ '','' @ t)))"
| "elementJS JUndefined = Inr []"
| "elementJS JNull = Inr []"
| "elementJS v = toStringJS v"

definition toPropertyKey :: "jsval \<Rightarrow> jserror + string" where
  "toPropertyKey v = toStringJS v"

text \<open>
  An object literal inherits from \<^verbatim>\<open>Object.prototype\<close>: a key that is not an own
  property but names one of its members reads that member, a function (or the prototype
  itself for \<^verbatim>\<open>__proto__\<close>), which is truthy and is neither a number nor an array.
\<close>

definition objectPrototypeKeys :: "string list" where
  "objectPrototypeKeys =
     [''constructor'', ''hasOwnProperty'', ''isPrototypeOf'', ''propertyIsEnumerable'',
      ''toLocaleString'', ''toString'', ''valueOf'', ''__proto__'',
      ''__defineGetter__'', ''__defineSetter__'', ''__lookupGetter__'', ''__lookupSetter__'']"

datatype 'a slot = Own 'a | Inherited string | Absent

definition readKey :: "(string \<times> 'a) list \<Rightarrow> string \<Rightarrow> 'a slot" where
  "readKey literal k =
     (case map_of literal k of
        Some v \<Rightarrow> Own v
      | None \<Rightarrow> if k \<in> set objectPrototypeKeys then Inherited k else Absent)"

definition readLiteral :: "(string \<times> 'a) list \<Rightarrow> jsval \<Rightarrow> jserror + 'a slot" where
  "readLiteral literal v =
     (case toPropertyKey v of Inl e \<Rightarrow> Inl e | Inr k \<Rightarrow> Inr (readKey literal k))"

text \<open>
  What a function returns: a value of the expected kind, or the inherited built-in
  found under a key of \<^verbatim>\<open>Object.prototype\<close>.
\<close>

datatype 'a returned = Returned 'a | Builtin string

section \<open>Status transitions and priority weights (bugUtils.js)\<close>

definition validStatuses :: "string list" where
  "validStatuses = [''open'', ''in-progress'', ''resolved'']"

definition validTransitions :: "(string \<times> string list) list" where
  "validTransitions =
     [(''open'', [''in-progress'', ''resolved'']),
      (''in-progress'', [''open'', ''resolved'']),
      (''resolved'', [''open'', ''in-progress''])]"

text \<open>
  \<^verbatim>\<open>validTransitions[currentStatus]?.includes(newStatus) || false\<close>: an own property is
  one of the three arrays; an inherited member of \<^verbatim>\<open>Object.prototype\<close> has no
  \<^verbatim>\<open>includes\<close> method, and calling it throws; a missing key gives \<^verbatim>\<open>undefined\<close>, which
  the optional chaining and \<^verbatim>\<open>|| false\<close> turn into \<^verbatim>\<open>false\<close>.
\<close>

definition notAFunction :: jserror where
  "notAFunction = Thrown ''TypeError'' ''includes is not a function''"

definition isValidStatusTransition :: "jsval \<Rightarrow> jsval \<Rightarrow> jserror + bool" where
  "isValidStatusTransition currentStatus newStatus =
     (if \<not> includesJS validStatuses currentStatus \<or> \<not> includesJS validStatuses newStatus
      then Inr False
      else (case readLiteral validTransitions currentStatus of
              Inl e \<Rightarrow> Inl e
            | Inr (Own targets) \<Rightarrow> Inr (includesJS targets newStatus \<or> False)
            | Inr (Inherited k) \<Rightarrow> Inl notAFunction
            | Inr Absent \<Rightarrow> Inr False))"

text \<open>\<^verbatim>\<open>validTransitions[currentStatus] || []\<close>: an array is truthy, even when empty.\<close>

definition getValidNextStatuses :: "jsval \<Rightarrow> jserror + string list returned" where
  "getValidNextStatuses currentStatus =
     (case readLiteral validTransitions currentStatus of
        Inl e \<Rightarrow> Inl e
      | Inr (Own targets) \<Rightarrow> Inr (Returned targets)
      | Inr (Inherited k) \<Rightarrow> Inr (Builtin k)
      | Inr Absent \<Rightarrow> Inr (Returned []))"

definition weights :: "(string \<times> nat) list" where
  "weights = [(''low'', 1), (''medium'', 2), (''high'', 3), (''critical'', 4)]"

text \<open>\<^verbatim>\<open>weights[priority] || 0\<close>.\<close>

definition getPriorityWeight :: "jsval \<Rightarrow> jserror + nat returned" where
  "getPriorityWeight priority =
     (case readLiteral weights priority of
        Inl e \<Rightarrow> Inl e
      | Inr (Own w) \<Rightarrow> Inr (Returned (if w \<noteq> 0 then w else 0))
      | Inr (Inherited k) \<Rightarrow> Inr (Builtin k)
      | Inr Absent \<Rightarrow> Inr (Returned 0))"

section \<open>Record validation (bugUtils.js)\<close>

text \<open>
  \<^verbatim>\<open>String.prototype.trim\<close> removes white space and line terminators from both ends;
  among 8-bit characters these are tab, line feed, vertical tab, form feed, carriage
  return, space and the no-break space.
\<close>

definition isWhiteSpace :: "char \<Rightarrow> bool" where
  "isWhiteSpace c = (of_char c \<in> {9, 10, 11, 12, 13, 32, 160 :: nat})"

definition trim :: "string \<Rightarrow> string" where
  "trim s = dropWhile isWhiteSpace (rev (dropWhile isWhiteSpace (rev s)))"

text \<open>
  \<^verbatim>\<open>bugData.title\<close> and the other four reads. Reading a property of \<^verbatim>\<open>null\<close> or
  \<^verbatim>\<open>undefined\<close> throws a TypeError. An object gives its own property; the five names
  read by the code are members of no built-in prototype, so a missing property, and any
  property of a primitive or of an array under these names, is \<^verbatim>\<open>undefined\<close>.
\<close>

definition cannotRead :: "string \<Rightarrow> jserror" where
  "cannotRead k = Thrown ''TypeError'' (''Cannot read properties of null or undefined, reading '' @ k)"

fun readField :: "jsval \<Rightarrow> string \<Rightarrow> jserror + jsval" where
  "readField JUndefined k = Inl (cannotRead k)"
| "readField JNull k = Inl (cannotRead k)"
| "readField (JObj fs) k = Inr (case map_of fs k of Some v \<Rightarrow> v | None \<Rightarrow> JUndefined)"
| "readField v k = Inr JUndefined"

text \<open>The characters of a string value; only evaluated after the \<^verbatim>\<open>typeof\<close> test.\<close>

fun strOf :: "jsval \<Rightarrow> string" where
  "strOf (JStr s) = s"
| "strOf v = []"

definition andThen :: "jserror + 'a \<Rightarrow> ('a \<Rightarrow> jserror + 'b) \<Rightarrow> jserror + 'b" where
  "andThen r f = (case r of Inl e \<Rightarrow> Inl e | Inr x \<Rightarrow> f x)"

definition titleRequired :: string where
  "titleRequired = ''Title is required and must be a non-empty string''"

definition titleTooLong :: string where
  "titleTooLong = ''Title cannot exceed 200 characters''"

definition descriptionRequired :: string where
  "descriptionRequired = ''Description is required and must be a non-empty string''"

definition reporterRequired :: string where
  "reporterRequired = ''Reporter is required and must be a non-empty string''"

definition statusInvalid :: string where
  "statusInvalid = ''Status must be one of: open, in-progress, resolved''"

definition priorityInvalid :: string where
  "priorityInvalid = ''Priority must be one of: low, medium, high, critical''"

definition validPriorities :: "string list" where
  "validPriorities = [''low'', ''medium'', ''high'', ''critical'']"

record validation =
  valid :: bool
  errors :: "string list"

text \<open>
  The five \<^verbatim>\<open>if\<close> statements of \<^verbatim>\<open>validateBugData\<close>, each taking the \<^verbatim>\<open>errors\<close>
  array so far and returning it after its \<^verbatim>\<open>push\<close>, if any.
\<close>

definition checkTitle :: "jsval \<Rightarrow> string list \<Rightarrow> jserror + string list" where
  "checkTitle bugData errs =
     andThen (readField bugData ''title'') (\<lambda>title.
       if \<not> truthy title \<or> \<not> isString title \<or> length (trim (strOf title)) = 0
       then Inr (errs @ [titleRequired])
       else if length (strOf title) > 200 then Inr (errs @ [titleTooLong])
       else Inr errs)"

definition checkDescription :: "jsval \<Rightarrow> string list \<Rightarrow> jserror + string list" where
  "checkDescription bugData errs =
     andThen (readField bugData ''description'') (\<lambda>description.
       if \<not> truthy description \<or> \<not> isString description
          \<or> length (trim (strOf description)) = 0
       then Inr (errs @ [descriptionRequired])
       else Inr errs)"

definition checkReporter :: "jsval \<Rightarrow> string list \<Rightarrow> jserror + string list" where
  "checkReporter bugData errs =
     andThen (readField bugData ''reporter'') (\<lambda>reporter.
       if \<not> truthy reporter \<or> \<not> isString reporter \<or> length (trim (strOf reporter)) = 0
       then Inr (errs @ [reporterRequired])
       else Inr errs)"

definition checkStatus :: "jsval \<Rightarrow> string list \<Rightarrow> jserror + string list" where
  "checkStatus bugData errs =
     andThen (readField bugData ''status'') (\<lambda>status.
       if truthy status \<and> \<not> includesJS validStatuses status
       then Inr (errs @ [statusInvalid])
       else Inr errs)"

definition checkPriority :: "jsval \<Rightarrow> string list \<Rightarrow> jserror + string list" where
  "checkPriority bugData errs =
     andThen (readField bugData ''priority'') (\<lambda>priority.
       if truthy priority \<and> \<not> includesJS validPriorities priority
       then Inr (errs @ [priorityInvalid])
       else Inr errs)"

definition validateBugData :: "jsval \<Rightarrow> jserror + validation" where
  "validateBugData bugData =
     andThen (checkTitle bugData []) (\<lambda>e1.
     andThen (checkDescription bugData e1) (\<lambda>e2.
     andThen (checkReporter bugData e2) (\<lambda>e3.
     andThen (checkStatus bugData e3) (\<lambda>e4.
     andThen (checkPriority bugData e4) (\<lambda>errs.
       Inr \<lparr>valid = (length errs = 0), errors = errs\<rparr>)))))"

subsection \<open>The tests, one per field\<close>

text \<open>
  The five tests of \<^verbatim>\<open>validateBugData\<close>, each as a condition on the value of its
  field, with the message it pushes: what the code reports, field by field.
\<close>

datatype field = Title | Description | Reporter | Status | Priority

definition fieldOrder :: "field list" where
  "fieldOrder = [Title, Description, Reporter, Status, Priority]"

fun fieldName :: "field \<Rightarrow> string" where
  "fieldName Title = ''title''"
| "fieldName Description = ''description''"
| "fieldName Reporter = ''reporter''"
| "fieldName Status = ''status''"
| "fieldName Priority = ''priority''"

text \<open>The value of a field of a candidate that is an object.\<close>

definition fieldValue :: "(string \<times> jsval) list \<Rightarrow> field \<Rightarrow> jsval" where
  "fieldValue fs f = (case map_of fs (fieldName f) of Some v \<Rightarrow> v | None \<Rightarrow> JUndefined)"

text \<open>A string that is not empty after trimming.\<close>

definition nonEmptyText :: "jsval \<Rightarrow> bool" where
  "nonEmptyText v = (case v of JStr s \<Rightarrow> trim s \<noteq> [] | _ \<Rightarrow> False)"

fun checkFails :: "field \<Rightarrow> jsval \<Rightarrow> bool" where
  "checkFails Title v = (\<not> nonEmptyText v \<or> length (strOf v) > 200)"
| "checkFails Description v = (\<not> nonEmptyText v)"
| "checkFails Reporter v = (\<not> nonEmptyText v)"
| "checkFails Status v = (truthy v \<and> v \<notin> JStr ` set validStatuses)"
| "checkFails Priority v = (truthy v \<and> v \<notin> JStr ` set validPriorities)"

fun ruleMessage :: "field \<Rightarrow> jsval \<Rightarrow> string" where
  "ruleMessage Title v = (if nonEmptyText v then titleTooLong else titleRequired)"
| "ruleMessage Description v = descriptionRequired"
| "ruleMessage Reporter v = reporterRequired"
| "ruleMessage Status v = statusInvalid"
| "ruleMessage Priority v = priorityInvalid"

text \<open>The messages of the failed tests of an object's fields, in the order given.\<close>

definition verdicts :: "(string \<times> jsval) list \<Rightarrow> field list \<Rightarrow> string list" where
  "verdicts fs order =
     map (\<lambda>f. ruleMessage f (fieldValue fs f))
       (filter (\<lambda>f. checkFails f (fieldValue fs f)) order)"

subsection \<open>Vocabulary of the properties\<close>

text \<open>A primitive value: anything but an array or an object.\<close>

fun primitive :: "jsval \<Rightarrow> bool" where
  "primitive (JArr xs) = False"
| "primitive (JObj fs) = False"
| "primitive v = True"

text \<open>The status enumeration, as values.\<close>

definition statusValues :: "jsval set" where
  "statusValues = {JStr ''open'', JStr ''in-progress'', JStr ''resolved''}"

text \<open>
  A value is a member of what \<^verbatim>\<open>getValidNextStatuses\<close> returned: the call returned a
  list, and the list includes the value.
\<close>

definition listsMember :: "jsval \<Rightarrow> jserror + string list returned \<Rightarrow> bool" where
  "listsMember v r = (case r of Inr (Returned l) \<Rightarrow> includesJS l v | _ \<Rightarrow> False)"

subsection \<open>The rules of a record, as the specification states them\<close>





section \<open>Bug records\<close>

text \<open>
  A stored bug (\<^verbatim>\<open>models/Bug.js\<close>): the identifier \<^verbatim>\<open>_id\<close>, the five schema fields
  and the two timestamps.
\<close>

record bug =
  ident :: string
  title :: string
  description :: string
  status :: string
  priority :: string
  reporter :: string
  createdAt :: nat
  updatedAt :: nat

text \<open>
  The schema's rule for the title (\<^verbatim>\<open>trim: true\<close>, \<^verbatim>\<open>required\<close>,
  \<^verbatim>\<open>maxlength: 200\<close>), on a title that is a string: the store trims the value when it
  is set, and validates the trimmed value; \<^verbatim>\<open>required\<close> fails on the empty string.
\<close>

definition schemaTitle :: "string \<Rightarrow> string list" where
  "schemaTitle s =
     (let t = trim s
      in (if t = [] then [''Title is required''] else [])
         @ (if length t > 200 then [''Title cannot exceed 200 characters''] else []))"

section \<open>The request handlers (bugController.js)\<close>

text \<open>
  An error thrown by the store layer: its \<^verbatim>\<open>name\<close>, its \<^verbatim>\<open>message\<close> and, for a
  validation error, the messages of \<^verbatim>\<open>error.errors\<close> by path. An awaited store call
  either yields a value or throws such an error.
\<close>

record storeError =
  errName :: string
  errMessage :: string
  errErrors :: "(string \<times> string) list"

datatype 'a settled = Fulfilled 'a | Rejected storeError

text \<open>
  What a handler does with a request: it sends a status code with a JSON body, or it
  hands the error to \<^verbatim>\<open>next\<close>. The bodies are \<^verbatim>\<open>{success: false, error}\<close>,
  \<^verbatim>\<open>{success: true, data}\<close> for one record, \<^verbatim>\<open>{success: true, count, data}\<close> for a list
  and \<^verbatim>\<open>{success: true, data: {}}\<close>.
\<close>

datatype body = Failure string | Data bug | DataList nat "bug list" | Empty

datatype outcome = Respond nat body | Next storeError

definition bugNotFound :: string where
  "bugNotFound = ''Bug not found''"

text \<open>\<^verbatim>\<open>messages.join(', ')\<close>.\<close>

fun joinWith :: "string \<Rightarrow> string list \<Rightarrow> string" where
  "joinWith sep [] = []"
| "joinWith sep [x] = x"
| "joinWith sep (x # y # ys) = x @ sep @ joinWith sep (y # ys)"

text \<open>
  \<^verbatim>\<open>getBug\<close>: \<^verbatim>\<open>Bug.findById(req.params.id)\<close> is the store call, a parameter here; it
  yields the record, or \<^verbatim>\<open>null\<close> when there is none. The logging is left out.
\<close>

definition getBug :: "(string \<Rightarrow> bug option settled) \<Rightarrow> string \<Rightarrow> outcome" where
  "getBug findById reqId =
     (case findById reqId of
        Fulfilled None \<Rightarrow> Respond 404 (Failure bugNotFound)
      | Fulfilled (Some b) \<Rightarrow> Respond 200 (Data b)
      | Rejected error \<Rightarrow>
          if errName error = ''CastError'' then Respond 404 (Failure bugNotFound)
          else Next error)"

text \<open>
  \<^verbatim>\<open>updateBug\<close>: \<^verbatim>\<open>Bug.findByIdAndUpdate(req.params.id, req.body, ...)\<close> is the store
  call.
\<close>

definition updateBug ::
  "(string \<Rightarrow> jsval \<Rightarrow> bug option settled) \<Rightarrow> string \<Rightarrow> jsval \<Rightarrow> outcome" where
  "updateBug findByIdAndUpdate reqId reqBody =
     (case findByIdAndUpdate reqId reqBody of
        Fulfilled None \<Rightarrow> Respond 404 (Failure bugNotFound)
      | Fulfilled (Some b) \<Rightarrow> Respond 200 (Data b)
      | Rejected error \<Rightarrow>
          if errName error = ''ValidationError''
          then Respond 400 (Failure (joinWith '', '' (map snd (errErrors error))))
          else if errName error = ''CastError'' then Respond 404 (Failure bugNotFound)
          else Next error)"

text \<open>
  \<^verbatim>\<open>getBugs\<close>: the three query parameters are absent or strings; a filter is added
  to the query when its parameter is truthy, that is, present and not the empty string.
  \<^verbatim>\<open>Bug.find(query).sort(sortBy)\<close> is the store call.
\<close>

definition addFilter ::
  "string \<Rightarrow> string option \<Rightarrow> (string \<times> string) list \<Rightarrow> (string \<times> string) list" where
  "addFilter path param query =
     (case param of
        None \<Rightarrow> query
      | Some v \<Rightarrow> if v \<noteq> [] then query @ [(path, v)] else query)"

definition getBugs ::
  "((string \<times> string) list \<Rightarrow> string \<Rightarrow> bug list settled) \<Rightarrow>
   string option \<Rightarrow> string option \<Rightarrow> string option \<Rightarrow> outcome" where
  "getBugs findSort qStatus qPriority qSort =
     (let query = addFilter ''priority'' qPriority (addFilter ''status'' qStatus []);
          sortBy = (if qSort = Some ''oldest'' then ''createdAt''
                    else if qSort = Some ''priority'' then ''-priority''
                    else ''-createdAt'')
      in case findSort query sortBy of
           Fulfilled bugs \<Rightarrow> Respond 200 (DataList (length bugs) bugs)
         | Rejected error \<Rightarrow> Next error)"

subsection \<open>The document store's query\<close>

text \<open>
  The store is outside the repository; the list handler depends on it through
  \<^verbatim>\<open>find(query).sort(sortBy)\<close> alone. As the store documents it: \<^verbatim>\<open>find\<close> keeps the
  documents whose fields equal the query's; \<^verbatim>\<open>sort\<close> orders them by the named field,
  ascending, or descending when the name is prefixed by \<^verbatim>\<open>-\<close>; a string field is
  compared character by character, by character code (the default, binary collation:
  the lexicographic order of the library), a timestamp by time. The order of documents
  with equal keys is not specified by the store; here the ascending sort is stable and
  the descending one is its reverse.
\<close>

definition fieldText :: "string \<Rightarrow> bug \<Rightarrow> string option" where
  "fieldText path b =
     (if path = ''title'' then Some (title b)
      else if path = ''description'' then Some (description b)
      else if path = ''status'' then Some (status b)
      else if path = ''priority'' then Some (priority b)
      else if path = ''reporter'' then Some (reporter b)
      else None)"

definition matches :: "(string \<times> string) list \<Rightarrow> bug \<Rightarrow> bool" where
  "matches query b = list_all (\<lambda>(path, v). fieldText path b = Some v) query"

definition sortAscending :: "string \<Rightarrow> bug list \<Rightarrow> bug list" where
  "sortAscending path docs =
     (if path = ''createdAt'' then sort_key createdAt docs
      else if path = ''updatedAt'' then sort_key updatedAt docs
      else sort_key (\<lambda>b. case fieldText path b of Some s \<Rightarrow> s | None \<Rightarrow> []) docs)"

definition sortDocs :: "string \<Rightarrow> bug list \<Rightarrow> bug list" where
  "sortDocs sortBy docs =
     (case sortBy of
        CHR ''-'' # path \<Rightarrow> rev (sortAscending path docs)
      | path \<Rightarrow> sortAscending path docs)"

definition storeFind :: "bug list \<Rightarrow> (string \<times> string) list \<Rightarrow> string \<Rightarrow> bug list settled" where
  "storeFind docs query sortBy = Fulfilled (sortDocs sortBy (filter (matches query) docs))"

text \<open>
  The weight of a record's priority, and a list in which it never increases: every
  critical record before every high one, and so on.
\<close>

definition weightOf :: "bug \<Rightarrow> nat" where
  "weightOf b = (case getPriorityWeight (JStr (priority b)) of Inr (Returned w) \<Rightarrow> w | _ \<Rightarrow> 0)"

definition byWeightDescending :: "bug list \<Rightarrow> bool" where
  "byWeightDescending bugs = sorted_wrt (\<lambda>a b. weightOf b \<le> weightOf a) bugs"

section \<open>The client's bug collection (BugContext.jsx)\<close>

text \<open>
  The filter selection is an object: \<^verbatim>\<open>identity\<close> is its identity (two selections are the
  same object exactly when their \<^verbatim>\<open>identity\<close> is the same), the other fields its content.
\<close>

record filterSel =
  identity :: nat
  byStatus :: "string option"
  byPriority :: "string option"
  bySort :: "string option"

text \<open>The four state variables of \<^verbatim>\<open>BugProvider\<close>.\<close>

record provider =
  bugs :: "bug list"
  loading :: bool
  error :: "string option"
  filters :: filterSel

definition initialProvider :: provider where
  "initialProvider =
     \<lparr>bugs = [], loading = False, error = None,
      filters = \<lparr>identity = 0, byStatus = None, byPriority = None, bySort = None\<rparr>\<rparr>"

text \<open>The calls of \<^verbatim>\<open>bugService\<close>, each a network request.\<close>

datatype request =
    AddBug jsval
  | ModifyBug string jsval
  | RemoveBug string
  | FetchBugs filterSel

text \<open>\<^verbatim>\<open>err.message || 'Failed to ...'\<close>.\<close>

definition messageOr :: "jserror \<Rightarrow> string \<Rightarrow> string" where
  "messageOr err fallback = (if message err \<noteq> [] then message err else fallback)"

text \<open>
  Each asynchronous function is split at its \<^verbatim>\<open>await\<close>: the call runs up to the
  request, and the request's success or failure runs the rest, \<^verbatim>\<open>finally\<close> included.
  A call reads the state of the latest render.
\<close>

definition requestInProgress :: jserror where
  "requestInProgress = Thrown ''Error'' ''Request already in progress''"

definition loadBugs_call :: "provider \<Rightarrow> filterSel option \<Rightarrow> provider \<times> request" where
  "loadBugs_call st customFilters =
     (let activeFilters = (case customFilters of Some f \<Rightarrow> f | None \<Rightarrow> filters st)
      in (st\<lparr>loading := True, error := None\<rparr>, FetchBugs activeFilters))"

definition loadBugs_fulfilled :: "bug list \<Rightarrow> provider \<Rightarrow> provider" where
  "loadBugs_fulfilled data st = st\<lparr>bugs := data, loading := False\<rparr>"

definition loadBugs_rejected :: "jserror \<Rightarrow> provider \<Rightarrow> provider" where
  "loadBugs_rejected err st =
     st\<lparr>error := Some (messageOr err ''Failed to load bugs''), loading := False\<rparr>"

definition createBug_call :: "provider \<Rightarrow> jsval \<Rightarrow> jserror + provider \<times> request" where
  "createBug_call st bugData =
     (if loading st then Inl requestInProgress
      else Inr (st\<lparr>loading := True, error := None\<rparr>, AddBug bugData))"

definition createBug_fulfilled :: "bug \<Rightarrow> provider \<Rightarrow> provider" where
  "createBug_fulfilled newBug st =
     st\<lparr>bugs := (case List.find (\<lambda>b. ident b = ident newBug) (bugs st) of
                   Some found \<Rightarrow> bugs st
                 | None \<Rightarrow> newBug # bugs st),
        loading := False\<rparr>"

definition createBug_rejected :: "jserror \<Rightarrow> provider \<Rightarrow> provider" where
  "createBug_rejected err st =
     st\<lparr>error := Some (messageOr err ''Failed to create bug''), loading := False\<rparr>"

definition updateBug_call :: "provider \<Rightarrow> string \<Rightarrow> jsval \<Rightarrow> jserror + provider \<times> request" where
  "updateBug_call st bugId bugData =
     Inr (st\<lparr>loading := True, error := None\<rparr>, ModifyBug bugId bugData)"

definition updateBug_fulfilled :: "string \<Rightarrow> bug \<Rightarrow> provider \<Rightarrow> provider" where
  "updateBug_fulfilled bugId updatedBug st =
     st\<lparr>bugs := map (\<lambda>b. if ident b = bugId then updatedBug else b) (bugs st),
        loading := False\<rparr>"

definition updateBug_rejected :: "jserror \<Rightarrow> provider \<Rightarrow> provider" where
  "updateBug_rejected err st =
     st\<lparr>error := Some (messageOr err ''Failed to update bug''), loading := False\<rparr>"

definition deleteBug_call :: "provider \<Rightarrow> string \<Rightarrow> jserror + provider \<times> request" where
  "deleteBug_call st bugId = Inr (st\<lparr>loading := True, error := None\<rparr>, RemoveBug bugId)"

definition deleteBug_fulfilled :: "string \<Rightarrow> provider \<Rightarrow> provider" where
  "deleteBug_fulfilled bugId st =
     st\<lparr>bugs := filter (\<lambda>b. ident b \<noteq> bugId) (bugs st), loading := False\<rparr>"

definition deleteBug_rejected :: "jserror \<Rightarrow> provider \<Rightarrow> provider" where
  "deleteBug_rejected err st =
     st\<lparr>error := Some (messageOr err ''Failed to delete bug''), loading := False\<rparr>"

subsection \<open>Renders and the reload effect\<close>

text \<open>
  \<^verbatim>\<open>loadBugs\<close> is memoised on \<^verbatim>\<open>[filters]\<close> and the effect that calls it depends on
  \<^verbatim>\<open>[loadBugs]\<close>: after a render the effect runs exactly when the \<^verbatim>\<open>filters\<close> object is
  not the object of the render before (the framework compares dependencies by identity),
  and on mount.
\<close>

definition effect :: "provider \<Rightarrow> provider \<Rightarrow> provider \<times> request list" where
  "effect previous st =
     (if identity (filters previous) = identity (filters st) then (st, [])
      else (case loadBugs_call st None of (st', r) \<Rightarrow> (st', [r])))"

text \<open>
  \<^verbatim>\<open>updateFilters\<close> only calls \<^verbatim>\<open>setFilters(newFilters)\<close>, which queues the new state for
  the next render; nothing is rendered and no effect runs inside the call.
\<close>

definition updateFilters :: "filterSel \<Rightarrow> filterSel list \<Rightarrow> filterSel list" where
  "updateFilters newFilters queue = queue @ [newFilters]"

text \<open>
  The render after a tick takes the queued states in order, so that the last one is the
  new state; when that is the current object, the framework keeps the state as it is.
  Then the effect compares the \<^verbatim>\<open>filters\<close> of the two renders.
\<close>

definition commit :: "filterSel list \<Rightarrow> provider \<Rightarrow> provider" where
  "commit queue st =
     (if queue = [] then st
      else if identity (last queue) = identity (filters st) then st
      else st\<lparr>filters := last queue\<rparr>)"

definition render :: "filterSel list \<Rightarrow> provider \<Rightarrow> provider \<times> request list" where
  "render queue st = effect st (commit queue st)"

text \<open>
  An event is one tick, what runs between two renders, followed by its render. The
  tick of a filter change holds the \<^verbatim>\<open>setFilters\<close> calls made in one event handler, in
  order, which the framework batches into one render; every other tick holds one call
  or one completion.
\<close>

datatype event =
    Mount
  | SetFilters "filterSel list"
  | LoadFulfilled "bug list"
  | LoadRejected jserror
  | CreateCall jsval
  | CreateFulfilled bug
  | CreateRejected jserror
  | UpdateCall string jsval
  | UpdateFulfilled string bug
  | UpdateRejected jserror
  | DeleteCall string
  | DeleteFulfilled string
  | DeleteRejected jserror

text \<open>A call that throws leaves the state as it is and sends nothing.\<close>

definition afterCall :: "provider \<Rightarrow> jserror + provider \<times> request \<Rightarrow> provider \<times> request list" where
  "afterCall st r =
     (case r of
        Inl err \<Rightarrow> (st, [])
      | Inr (st', req) \<Rightarrow> (case effect st st' of (st'', reqs) \<Rightarrow> (st'', req # reqs)))"

fun react :: "event \<Rightarrow> provider \<Rightarrow> provider \<times> request list" where
  "react Mount st = (case loadBugs_call st None of (st', r) \<Rightarrow> (st', [r]))"
| "react (SetFilters calls) st =
     render (foldl (\<lambda>queue newFilters. updateFilters newFilters queue) [] calls) st"
| "react (LoadFulfilled data) st = effect st (loadBugs_fulfilled data st)"
| "react (LoadRejected err) st = effect st (loadBugs_rejected err st)"
| "react (CreateCall bugData) st = afterCall st (createBug_call st bugData)"
| "react (CreateFulfilled newBug) st = effect st (createBug_fulfilled newBug st)"
| "react (CreateRejected err) st = effect st (createBug_rejected err st)"
| "react (UpdateCall bugId bugData) st = afterCall st (updateBug_call st bugId bugData)"
| "react (UpdateFulfilled bugId updatedBug) st = effect st (updateBug_fulfilled bugId updatedBug st)"
| "react (UpdateRejected err) st = effect st (updateBug_rejected err st)"
| "react (DeleteCall bugId) st = afterCall st (deleteBug_call st bugId)"
| "react (DeleteFulfilled bugId) st = effect st (deleteBug_fulfilled bugId st)"
| "react (DeleteRejected err) st = effect st (deleteBug_rejected err st)"

text \<open>A sequence of events, with every request sent on the way, in order.\<close>

fun run :: "event list \<Rightarrow> provider \<Rightarrow> provider \<times> request list" where
  "run [] st = (st, [])"
| "run (e # es) st =
     (case react e st of (st', reqs) \<Rightarrow>
        (case run es st' of (st'', reqs') \<Rightarrow> (st'', reqs @ reqs')))"

fun isReload :: "request \<Rightarrow> bool" where
  "isReload (FetchBugs f) = True"
| "isReload r = False"

text \<open>The calls of an event that ask for a reload: a mount, and each \<^verbatim>\<open>setFilters\<close> call.\<close>

fun reloadCalls :: "event \<Rightarrow> nat" where
  "reloadCalls Mount = 1"
| "reloadCalls (SetFilters calls) = length calls"
| "reloadCalls e = 0"

section \<open>Example inputs\<close>

text \<open>The error the store throws for an identifier that is not a valid object id.\<close>

definition castError :: storeError where
  "castError =
     \<lparr>errName = ''CastError'',
      errMessage = ''Cast to ObjectId failed for value abc (type string) at path _id for model Bug'',
      errErrors = []\<rparr>"

definition highBug :: bug where
  "highBug =
     \<lparr>ident = ''b1'', title = ''Crash on save'', description = ''d'', status = ''open'',
      priority = ''high'', reporter = ''Ann'', createdAt = 1, updatedAt = 1\<rparr>"

definition mediumBug :: bug where
  "mediumBug =
     \<lparr>ident = ''b2'', title = ''Typo'', description = ''d'', status = ''open'',
      priority = ''medium'', reporter = ''Ann'', createdAt = 2, updatedAt = 2\<rparr>"

text \<open>Two filter selections, each a new object.\<close>

definition openOnly :: filterSel where
  "openOnly = \<lparr>identity = 1, byStatus = Some ''open'', byPriority = None, bySort = None\<rparr>"

definition openHigh :: filterSel where
  "openHigh =
     \<lparr>identity = 2, byStatus = Some ''open'', byPriority = Some ''high'', bySort = None\<rparr>"

section \<open>Properties of the utility functions\<close>

subsection \<open>Auxiliary facts\<close>

lemma includesJS_iff: "includesJS xs v = (v \<in> JStr ` set xs)"
  by (induction xs) (cases v; auto)+

lemma digit_char: "(n::nat) < 10 \<Longrightarrow> ''0123456789'' ! n \<in> set ''0123456789''"
  by (rule nth_mem) simp

lemma digitsOf_hd: "digitsOf n \<noteq> [] \<and> hd (digitsOf n) \<in> set ''0123456789''"
proof (induction n rule: digitsOf.induct)
  case (1 n)
  show ?case
  proof (cases "n < 10")
    case True
    then show ?thesis
      using digit_char[of n] by (subst digitsOf.simps, subst digitsOf.simps) simp
  next
    case False
    then show ?thesis
      using 1 by (subst digitsOf.simps, subst (2) digitsOf.simps) simp
  qed
qed

lemma numberToString_hd:
  "numberToString n \<noteq> [] \<and> hd (numberToString n) \<in> set ''-0123456789''"
  using digitsOf_hd[of "nat n"] digitsOf_hd[of "nat (- n)"]
  by (auto simp: numberToString_def)

text \<open>
  A primitive whose property key is neither a number's string nor one of the five
  words that the other primitives turn into is the string itself.
\<close>

lemma primitive_key:
  assumes "primitive v" "toPropertyKey v = Inr k" "k \<noteq> []"
    "hd k \<notin> set ''-0123456789''"
    "k \<notin> {''undefined'', ''null'', ''true'', ''false'', ''NaN''}"
  shows "v = JStr k"
  using assms numberToString_hd
  by (cases v) (auto simp: toPropertyKey_def split: if_splits)

lemma primitive_has_key: "primitive p \<Longrightarrow> \<exists>k. toPropertyKey p = Inr k"
  by (cases p) (auto simp: toPropertyKey_def)

lemma status_key:
  assumes "primitive c" "toPropertyKey c = Inr k" "k \<in> set validStatuses"
  shows "c = JStr k"
  using assms primitive_key[of c k] by (auto simp: validStatuses_def)

lemma isValidStatusTransition_eq:
  "isValidStatusTransition a b =
     Inr (a \<in> JStr ` set validStatuses \<and> b \<in> JStr ` set validStatuses \<and> a \<noteq> b)"
  by (auto simp: isValidStatusTransition_def includesJS_iff validStatuses_def readLiteral_def
      toPropertyKey_def readKey_def validTransitions_def)

lemma andThen_Inr [simp]: "andThen (Inr x) f = f x"
  by (simp add: andThen_def)

lemma andThen_Inl [simp]: "andThen (Inl e) f = Inl e"
  by (simp add: andThen_def)

lemma readField_obj: "readField (JObj fs) (fieldName f) = Inr (fieldValue fs f)"
  by (simp add: fieldValue_def)

lemma nonEmptyText_iff:
  "nonEmptyText v = (\<not> (\<not> truthy v \<or> \<not> isString v \<or> length (trim (strOf v)) = 0))"
  by (cases v) (auto simp: nonEmptyText_def trim_def)

lemma checkTitle_obj: "checkTitle (JObj fs) errs = Inr (errs @ verdicts fs [Title])"
  using readField_obj[of fs Title]
  by (simp add: checkTitle_def verdicts_def nonEmptyText_iff del: readField.simps)

lemma checkDescription_obj:
  "checkDescription (JObj fs) errs = Inr (errs @ verdicts fs [Description])"
  using readField_obj[of fs Description]
  by (simp add: checkDescription_def verdicts_def nonEmptyText_iff del: readField.simps)

lemma checkReporter_obj: "checkReporter (JObj fs) errs = Inr (errs @ verdicts fs [Reporter])"
  using readField_obj[of fs Reporter]
  by (simp add: checkReporter_def verdicts_def nonEmptyText_iff del: readField.simps)

lemma checkStatus_obj: "checkStatus (JObj fs) errs = Inr (errs @ verdicts fs [Status])"
  using readField_obj[of fs Status]
  by (simp add: checkStatus_def verdicts_def includesJS_iff del: readField.simps)

lemma checkPriority_obj: "checkPriority (JObj fs) errs = Inr (errs @ verdicts fs [Priority])"
  using readField_obj[of fs Priority]
  by (simp add: checkPriority_def verdicts_def includesJS_iff del: readField.simps)

lemma verdicts_append: "verdicts fs (xs @ ys) = verdicts fs xs @ verdicts fs ys"
  by (simp add: verdicts_def)

text \<open>On an object, the five checks in sequence amount to the verdicts in field order.\<close>

lemma validateBugData_obj:
  "validateBugData (JObj fs) =
     Inr \<lparr>valid = (verdicts fs fieldOrder = []), errors = verdicts fs fieldOrder\<rparr>"
proof -
  have h: "fieldOrder = [Title] @ [Description] @ [Reporter] @ [Status] @ [Priority]"
    by (simp add: fieldOrder_def)
  have "verdicts fs fieldOrder =
      verdicts fs [Title] @ verdicts fs [Description] @ verdicts fs [Reporter]
        @ verdicts fs [Status] @ verdicts fs [Priority]"
    by (subst h) (simp only: verdicts_append)
  then show ?thesis
    by (simp add: validateBugData_def checkTitle_obj checkDescription_obj checkReporter_obj
        checkStatus_obj checkPriority_obj)
qed

text \<open>A candidate that is a primitive or an array has none of the fields.\<close>

lemma validateBugData_not_object:
  assumes "c \<noteq> JNull" "c \<noteq> JUndefined" "\<forall>fs. c \<noteq> JObj fs"
  shows "validateBugData c =
     Inr \<lparr>valid = False, errors = [titleRequired, descriptionRequired, reporterRequired]\<rparr>"
  using assms
  by (cases c) (simp_all add: validateBugData_def checkTitle_def checkDescription_def
      checkReporter_def checkStatus_def checkPriority_def)

lemma validateBugData_returns:
  assumes "c \<noteq> JNull" "c \<noteq> JUndefined"
  shows "\<exists>r. validateBugData c = Inr r \<and> valid r = (errors r = [])"
proof (cases "\<exists>fs. c = JObj fs")
  case True
  then show ?thesis using validateBugData_obj by auto
next
  case False
  then show ?thesis using validateBugData_not_object[OF assms] by simp
qed




lemma dropWhile_replicate:
  "dropWhile P (replicate n x) = (if P x then [] else replicate n x)"
  by (induction n) auto

subsection \<open>Status transitions\<close>

text \<open>
  Claim C2. For every pair of statuses of the enumeration open, in-progress, resolved,
  \<^verbatim>\<open>isValidStatusTransition\<close> returns true exactly when the two differ; when either
  argument is any other value, it returns false.
\<close>

theorem isValidStatusTransition_iff_distinct:
  "(a \<in> statusValues \<and> b \<in> statusValues \<longrightarrow> isValidStatusTransition a b = Inr (a \<noteq> b))
   \<and> (a \<notin> statusValues \<or> b \<notin> statusValues \<longrightarrow> isValidStatusTransition a b = Inr False)"
  by (auto simp: isValidStatusTransition_eq validStatuses_def statusValues_def)

theorem isValidStatusTransition_iff_distinct_witness:
  "isValidStatusTransition (JStr ''open'') (JStr ''resolved'') = Inr True
   \<and> isValidStatusTransition (JStr ''open'') (JStr ''open'') = Inr False
   \<and> isValidStatusTransition JNull (JStr ''open'') = Inr False"
  using isValidStatusTransition_iff_distinct[of "JStr ''open''" "JStr ''resolved''"]
    isValidStatusTransition_iff_distinct[of "JStr ''open''" "JStr ''open''"]
    isValidStatusTransition_iff_distinct[of JNull "JStr ''open''"]
  by (simp add: statusValues_def)

text \<open>
  Claim C10, as stated, fails: the array \<^verbatim>\<open>['open']\<close> is not a status, so
  \<^verbatim>\<open>isValidStatusTransition(['open'], 'resolved')\<close> is false, but as a property key the
  array is \<^verbatim>\<open>open\<close>, so \<^verbatim>\<open>getValidNextStatuses(['open'])\<close> returns the list for open,
  which has \<^verbatim>\<open>resolved\<close> as a member.
\<close>

theorem transition_and_next_statuses_disagree_on_array:
  "isValidStatusTransition (JArr [JStr ''open'']) (JStr ''resolved'') = Inr False
   \<and> getValidNextStatuses (JArr [JStr ''open'']) = Inr (Returned [''in-progress'', ''resolved''])
   \<and> listsMember (JStr ''resolved'') (getValidNextStatuses (JArr [JStr ''open'']))
   \<and> (isValidStatusTransition (JArr [JStr ''open'']) (JStr ''resolved'') = Inr True)
       \<noteq> listsMember (JStr ''resolved'') (getValidNextStatuses (JArr [JStr ''open'']))"
  by (simp add: isValidStatusTransition_def getValidNextStatuses_def validStatuses_def
      readLiteral_def toPropertyKey_def readKey_def validTransitions_def listsMember_def)

text \<open>
  Claim C10, amended. For every primitive current status (a string, a number, a boolean,
  \<^verbatim>\<open>null\<close> or \<^verbatim>\<open>undefined\<close>) and every proposed value, \<^verbatim>\<open>isValidStatusTransition\<close>
  returns true exactly when \<^verbatim>\<open>getValidNextStatuses\<close> returns a list that has the
  proposed value as a member.
\<close>

theorem transition_agrees_with_next_statuses:
  assumes "primitive c"
  shows "(isValidStatusTransition c p = Inr True) = listsMember p (getValidNextStatuses c)"
proof (cases "c \<in> statusValues")
  case True
  then show ?thesis
    by (auto simp: isValidStatusTransition_eq includesJS_iff validStatuses_def readLiteral_def
        toPropertyKey_def readKey_def validTransitions_def statusValues_def listsMember_def
        getValidNextStatuses_def)
next
  case False
  then have a: "isValidStatusTransition c p = Inr False"
    by (auto simp: isValidStatusTransition_eq validStatuses_def statusValues_def)
  obtain k where k: "toPropertyKey c = Inr k"
    using primitive_has_key[OF assms] by blast
  have "k \<notin> set validStatuses"
    using status_key[OF assms k] False k by (auto simp: validStatuses_def statusValues_def)
  then have "map_of validTransitions k = None"
    by (auto simp: validStatuses_def validTransitions_def)
  then have "\<not> listsMember p (getValidNextStatuses c)"
    using k by (simp add: getValidNextStatuses_def readLiteral_def readKey_def listsMember_def)
  with a show ?thesis by simp
qed

theorem transition_agrees_with_next_statuses_witness:
  "primitive (JStr ''resolved'')
   \<and> isValidStatusTransition (JStr ''resolved'') (JStr ''open'') = Inr True
   \<and> listsMember (JStr ''open'') (getValidNextStatuses (JStr ''resolved''))
   \<and> \<not> listsMember (JStr ''open'') (getValidNextStatuses JUndefined)"
proof -
  have a: "isValidStatusTransition (JStr ''resolved'') (JStr ''open'') = Inr True"
    by (simp add: isValidStatusTransition_eq validStatuses_def)
  have b: "isValidStatusTransition JUndefined (JStr ''open'') \<noteq> Inr True"
    by (simp add: isValidStatusTransition_eq validStatuses_def)
  show ?thesis
    using a b transition_agrees_with_next_statuses[of "JStr ''resolved''" "JStr ''open''"]
      transition_agrees_with_next_statuses[of JUndefined "JStr ''open''"]
    by simp
qed

subsection \<open>Priority weights\<close>

text \<open>The weights of the four priorities: low 1, medium 2, high 3, critical 4.\<close>

lemma getPriorityWeight_enumeration:
  "getPriorityWeight (JStr ''low'') = Inr (Returned 1)
   \<and> getPriorityWeight (JStr ''medium'') = Inr (Returned 2)
   \<and> getPriorityWeight (JStr ''high'') = Inr (Returned 3)
   \<and> getPriorityWeight (JStr ''critical'') = Inr (Returned 4)"
  by (simp add: getPriorityWeight_def readLiteral_def toPropertyKey_def readKey_def weights_def)

subsection \<open>Record validation\<close>

text \<open>
  Claim C4 fails on the code. A title of one space followed by 200 letters is, after
  trimming, 200 characters long and not empty, yet \<^verbatim>\<open>validateBugData\<close> rejects it with
  the 200-character message: it measures the title as given, not the trimmed one. The
  schema's rule accepts the same title.
\<close>

theorem validateBugData_rejects_padded_title:
  "trim (CHR '' '' # replicate 200 (CHR ''a'')) = replicate 200 (CHR ''a'')
   \<and> length (trim (CHR '' '' # replicate 200 (CHR ''a''))) = 200
   \<and> validateBugData
        (JObj [(''title'', JStr (CHR '' '' # replicate 200 (CHR ''a''))),
               (''description'', JStr ''x''), (''reporter'', JStr ''y'')])
      = Inr \<lparr>valid = False, errors = [titleTooLong]\<rparr>
   \<and> schemaTitle (CHR '' '' # replicate 200 (CHR ''a'')) = []"
proof -
  let ?t = "CHR '' '' # replicate 200 (CHR ''a'')"
  have a: "\<not> isWhiteSpace (CHR ''a'')" by (simp add: isWhiteSpace_def)
  have b: "isWhiteSpace (CHR '' '')" by (simp add: isWhiteSpace_def)
  have "dropWhile isWhiteSpace (rev ?t) = replicate 200 (CHR ''a'') @ [CHR '' '']"
    using a by (simp add: dropWhile_append1)
  then have t: "trim ?t = replicate 200 (CHR ''a'')"
    using a b by (simp add: trim_def dropWhile_append1 dropWhile_replicate)
  have v: "verdicts [(''title'', JStr ?t), (''description'', JStr ''x''), (''reporter'', JStr ''y'')]
      fieldOrder = [titleTooLong]"
    using t
    by (simp add: verdicts_def fieldOrder_def fieldValue_def nonEmptyText_def
        trim_def[of "''x''"] trim_def[of "''y''"] isWhiteSpace_def)
  have "schemaTitle ?t = []"
    using t by (simp add: schemaTitle_def)
  then show ?thesis using t v by (simp add: validateBugData_obj)
qed

text \<open>
  The other half of the claim holds, as does the first for a title measured as given: a
  title longer than 200 characters after trimming gets the 200-character message, and a
  title that is not empty after trimming and at most 200 characters long untrimmed gets
  no title message.
\<close>

lemma length_trim_le: "length (trim s) \<le> length s"
proof -
  have "length (trim s) \<le> length (dropWhile isWhiteSpace (rev s))"
    unfolding trim_def by (metis length_dropWhile_le length_rev)
  also have "\<dots> \<le> length (rev s)" by (rule length_dropWhile_le)
  finally show ?thesis by simp
qed

lemma validateBugData_title_over_limit:
  assumes "map_of fs ''title'' = Some (JStr s)" "200 < length (trim s)"
  shows "\<exists>r. validateBugData (JObj fs) = Inr r \<and> \<not> valid r \<and> titleTooLong \<in> set (errors r)"
proof -
  have n: "nonEmptyText (JStr s)" using assms(2) by (auto simp: nonEmptyText_def)
  have l: "200 < length s" using assms(2) length_trim_le[of s] by simp
  have "titleTooLong \<in> set (verdicts fs fieldOrder)"
    using n l assms(1) by (simp add: verdicts_def fieldOrder_def fieldValue_def)
  then show ?thesis by (auto simp: validateBugData_obj)
qed

lemma validateBugData_title_within_limit:
  assumes "map_of fs ''title'' = Some (JStr s)" "trim s \<noteq> []" "length s \<le> 200"
  shows "\<exists>r. validateBugData (JObj fs) = Inr r
     \<and> titleRequired \<notin> set (errors r) \<and> titleTooLong \<notin> set (errors r)"
proof -
  have n: "nonEmptyText (JStr s)" using assms(2) by (auto simp: nonEmptyText_def)
  have "titleRequired \<notin> set (verdicts fs fieldOrder) \<and> titleTooLong \<notin> set (verdicts fs fieldOrder)"
    using n assms(1,3)
    by (auto simp: verdicts_def fieldOrder_def fieldValue_def titleRequired_def titleTooLong_def
        descriptionRequired_def reporterRequired_def statusInvalid_def priorityInvalid_def)
  then show ?thesis by (auto simp: validateBugData_obj)
qed

subsection \<open>One message per violated rule\<close>










subsection \<open>Totality\<close>







section \<open>Properties of the request handlers\<close>

text \<open>
  Claim C6. When the store rejects the identifier of a read or an update with a cast
  error, the handler answers 404 with the text \<^verbatim>\<open>Bug not found\<close>, the very answer it
  gives when the store finds no record; it never passes the error on as a fault, and the
  answer does not depend on the store's message.
\<close>

theorem malformed_identifier_is_not_found:
  assumes "errName e = ''CastError''"
    and "findById i = Rejected e"
    and "findByIdAndUpdate i b = Rejected e"
    and "missById i = Fulfilled None"
    and "missByIdAndUpdate i b = Fulfilled None"
  shows "getBug findById i = Respond 404 (Failure ''Bug not found'')
     \<and> getBug findById i = getBug missById i
     \<and> updateBug findByIdAndUpdate i b = Respond 404 (Failure ''Bug not found'')
     \<and> updateBug findByIdAndUpdate i b = updateBug missByIdAndUpdate i b
     \<and> (\<forall>e'. getBug findById i \<noteq> Next e' \<and> updateBug findByIdAndUpdate i b \<noteq> Next e')"
  using assms by (simp add: getBug_def updateBug_def bugNotFound_def)

theorem malformed_identifier_is_not_found_witness:
  "getBug (\<lambda>i. Rejected castError) ''abc'' = Respond 404 (Failure ''Bug not found'')
   \<and> updateBug (\<lambda>i b. Rejected castError) ''abc'' (JObj [])
       = Respond 404 (Failure ''Bug not found'')
   \<and> getBug (\<lambda>i. Rejected castError) ''abc'' = getBug (\<lambda>i. Fulfilled None) ''abc''"
proof -
  have n: "errName castError = ''CastError''"
    by (simp add: castError_def)
  have "getBug (\<lambda>i. Rejected castError) ''abc'' = Respond 404 (Failure ''Bug not found'')
     \<and> getBug (\<lambda>i. Rejected castError) ''abc'' = getBug (\<lambda>i. Fulfilled None) ''abc''
     \<and> updateBug (\<lambda>i b. Rejected castError) ''abc'' (JObj [])
         = Respond 404 (Failure ''Bug not found'')
     \<and> updateBug (\<lambda>i b. Rejected castError) ''abc'' (JObj [])
         = updateBug (\<lambda>i b. Fulfilled None) ''abc'' (JObj [])
     \<and> (\<forall>e'. getBug (\<lambda>i. Rejected castError) ''abc'' \<noteq> Next e'
           \<and> updateBug (\<lambda>i b. Rejected castError) ''abc'' (JObj []) \<noteq> Next e')"
    by (rule malformed_identifier_is_not_found[OF n]) simp_all
  then show ?thesis by blast
qed

text \<open>
  Claim C8 fails on the code. With the sort directive \<^verbatim>\<open>priority\<close> the handler asks the
  store to sort by \<^verbatim>\<open>-priority\<close>, the priority string in descending order, where
  \<^verbatim>\<open>medium\<close> comes before \<^verbatim>\<open>high\<close>: a collection of a high and a medium bug is returned
  medium first, weight 2 before weight 3.
\<close>

theorem getBugs_sorts_priority_as_text:
  "getBugs (storeFind [highBug, mediumBug]) None None (Some ''priority'')
     = Respond 200 (DataList 2 [mediumBug, highBug])
   \<and> weightOf mediumBug = 2 \<and> weightOf highBug = 3
   \<and> \<not> byWeightDescending [mediumBug, highBug]"
proof -
  have w: "weightOf mediumBug = 2 \<and> weightOf highBug = 3"
    by (simp add: weightOf_def getPriorityWeight_def readLiteral_def toPropertyKey_def
        readKey_def weights_def highBug_def mediumBug_def)
  have s: "sortDocs ''-priority'' [highBug, mediumBug] = [mediumBug, highBug]"
    by (simp add: sortDocs_def sortAscending_def fieldText_def sort_key_def highBug_def
        mediumBug_def)
  have "getBugs (storeFind [highBug, mediumBug]) None None (Some ''priority'')
     = Respond 200 (DataList 2 [mediumBug, highBug])"
    using s by (simp add: getBugs_def addFilter_def storeFind_def matches_def)
  then show ?thesis using w by (simp add: byWeightDescending_def)
qed

text \<open>
  What the handler returns under that directive, for every collection and filter: the
  matching records in descending order of the priority text.
\<close>

lemma sortDocs_priority: "sortDocs ''-priority'' xs = rev (sort_key priority xs)"
  by (simp add: sortDocs_def sortAscending_def fieldText_def)

lemma getBugs_by_priority_is_text_order:
  "\<exists>bs. getBugs (storeFind docs) qStatus qPriority (Some ''priority'')
          = Respond 200 (DataList (length bs) bs)
     \<and> sorted (rev (map priority bs)) \<and> set bs \<subseteq> set docs"
proof -
  let ?q = "addFilter ''priority'' qPriority (addFilter ''status'' qStatus [])"
  let ?bs = "rev (sort_key priority (filter (matches ?q) docs))"
  have "getBugs (storeFind docs) qStatus qPriority (Some ''priority'')
          = Respond 200 (DataList (length ?bs) ?bs)"
    by (simp add: getBugs_def storeFind_def sortDocs_priority Let_def)
  moreover have "sorted (rev (map priority ?bs))"
    by (simp add: rev_map sorted_sort_key del: map_map)
  moreover have "set ?bs \<subseteq> set docs" by auto
  ultimately show ?thesis by blast
qed

section \<open>Properties of the client's collection\<close>

subsection \<open>Auxiliary facts\<close>

lemma find_ident: "(List.find (\<lambda>b. ident b = k) xs = None) = (k \<notin> ident ` set xs)"
  by (induction xs) auto

lemma createBug_fulfilled_bugs:
  "bugs (createBug_fulfilled n st) =
     (if ident n \<in> ident ` set (bugs st) then bugs st else n # bugs st)"
  using find_ident[of "ident n" "bugs st"]
  by (auto simp: createBug_fulfilled_def split: option.splits)

lemma queued_calls:
  "foldl (\<lambda>queue newFilters. updateFilters newFilters queue) queue calls = queue @ calls"
  by (induction calls arbitrary: queue) (simp_all add: updateFilters_def)

lemma effect_reloads: "length (filter isReload (snd (effect st st'))) \<le> 1"
  by (simp add: effect_def loadBugs_call_def)

lemma render_reloads: "length (filter isReload (snd (render queue st))) \<le> min 1 (length queue)"
proof (cases "queue = []")
  case True
  then show ?thesis by (simp add: render_def commit_def effect_def)
next
  case False
  then have "min 1 (length queue) = 1" by (cases queue) simp_all
  then show ?thesis
    using effect_reloads[of st "commit queue st"] by (simp add: render_def)
qed

lemma react_reloads: "length (filter isReload (snd (react e st))) \<le> min 1 (reloadCalls e)"
proof (cases e)
  case Mount
  then show ?thesis by (simp add: loadBugs_call_def)
next
  case (SetFilters calls)
  then show ?thesis
    using render_reloads[of calls st] by (simp add: queued_calls)
next
  case (CreateCall d)
  then show ?thesis
    by (simp add: afterCall_def createBug_call_def effect_def)
next
  case (UpdateCall i d)
  then show ?thesis
    by (simp add: afterCall_def updateBug_call_def effect_def)
next
  case (DeleteCall i)
  then show ?thesis
    by (simp add: afterCall_def deleteBug_call_def effect_def)
qed (simp_all add: effect_def loadBugs_fulfilled_def loadBugs_rejected_def
      createBug_fulfilled_def createBug_rejected_def updateBug_fulfilled_def
      updateBug_rejected_def deleteBug_fulfilled_def deleteBug_rejected_def)

text \<open>
  In any sequence of events, the reloads are at most the mounts and the ticks that hold
  a filter change, and so at most the mounts and \<^verbatim>\<open>setFilters\<close> calls.
\<close>

lemma run_reloads:
  "length (filter isReload (snd (run es st))) \<le> sum_list (map (\<lambda>e. min 1 (reloadCalls e)) es)"
proof (induction es arbitrary: st)
  case Nil
  then show ?case by simp
next
  case (Cons e es)
  obtain st' reqs where r: "react e st = (st', reqs)"
    by (cases "react e st")
  obtain st'' reqs' where r': "run es st' = (st'', reqs')"
    by (cases "run es st'")
  have a: "length (filter isReload reqs) \<le> min 1 (reloadCalls e)"
    using react_reloads[of e st] r by simp
  have b: "length (filter isReload reqs') \<le> sum_list (map (\<lambda>e. min 1 (reloadCalls e)) es)"
    using Cons.IH[of st'] r' by simp
  have "length (filter isReload reqs) + length (filter isReload reqs')
      \<le> min 1 (reloadCalls e) + sum_list (map (\<lambda>e. min 1 (reloadCalls e)) es)"
    using a b by (rule add_mono)
  then show ?case using r r' by simp
qed

lemma ticks_le_calls:
  "sum_list (map (\<lambda>e. min 1 (reloadCalls e)) es) \<le> sum_list (map reloadCalls es)"
  by (induction es) auto

subsection \<open>One mutating call at a time\<close>

text \<open>
  Claim C1 fails on the code. Only \<^verbatim>\<open>createBug\<close> tests \<^verbatim>\<open>loading\<close>: while a create is
  outstanding a second create throws \<^verbatim>\<open>Request already in progress\<close> and sends nothing,
  but an update and a delete go through, each sending its request, so that three
  mutating requests are in flight together.
\<close>

theorem update_and_delete_are_not_guarded:
  "createBug_call initialProvider (JObj [])
     = Inr (initialProvider\<lparr>loading := True\<rparr>, AddBug (JObj []))
   \<and> createBug_call (initialProvider\<lparr>loading := True\<rparr>) (JObj []) = Inl requestInProgress
   \<and> updateBug_call (initialProvider\<lparr>loading := True\<rparr>) ''b1'' (JObj [])
       = Inr (initialProvider\<lparr>loading := True\<rparr>, ModifyBug ''b1'' (JObj []))
   \<and> deleteBug_call (initialProvider\<lparr>loading := True\<rparr>) ''b1''
       = Inr (initialProvider\<lparr>loading := True\<rparr>, RemoveBug ''b1'')
   \<and> snd (run [CreateCall (JObj []), CreateCall (JObj [])] initialProvider) = [AddBug (JObj [])]
   \<and> snd (run [CreateCall (JObj []), UpdateCall ''b1'' (JObj []), DeleteCall ''b1'']
             initialProvider)
       = [AddBug (JObj []), ModifyBug ''b1'' (JObj []), RemoveBug ''b1'']"
  by (simp add: createBug_call_def updateBug_call_def deleteBug_call_def initialProvider_def
      afterCall_def effect_def)

subsection \<open>Reconciliation on create\<close>

text \<open>
  Claim C7. On create success the new record is put in front of the local collection
  only if no record there has its identifier; otherwise the collection is left as it
  is. The same success arriving twice leaves what the first left, and when the identifier
  was new, exactly one record with it.
\<close>

theorem create_success_inserts_once:
  "bugs (createBug_fulfilled newBug st) =
     (if ident newBug \<in> ident ` set (bugs st) then bugs st else newBug # bugs st)
   \<and> bugs (createBug_fulfilled newBug (createBug_fulfilled newBug st))
       = bugs (createBug_fulfilled newBug st)
   \<and> (ident newBug \<notin> ident ` set (bugs st) \<longrightarrow>
        length (filter (\<lambda>b. ident b = ident newBug)
          (bugs (createBug_fulfilled newBug (createBug_fulfilled newBug st)))) = 1)"
proof -
  have a: "bugs (createBug_fulfilled newBug (createBug_fulfilled newBug st))
       = bugs (createBug_fulfilled newBug st)"
    by (simp add: createBug_fulfilled_bugs)
  have b: "filter (\<lambda>b. ident b = ident newBug) (bugs st) = []"
    if h: "ident newBug \<notin> ident ` set (bugs st)"
  proof -
    have "\<forall>x\<in>set (bugs st). ident x \<noteq> ident newBug"
      using h by (metis imageI)
    then show ?thesis by (simp add: filter_empty_conv)
  qed
  show ?thesis using a b by (simp add: createBug_fulfilled_bugs)
qed

theorem create_success_inserts_once_witness:
  "bugs (createBug_fulfilled highBug initialProvider) = [highBug]
   \<and> bugs (createBug_fulfilled highBug (createBug_fulfilled highBug initialProvider)) = [highBug]
   \<and> length (filter (\<lambda>b. ident b = ident highBug)
        (bugs (createBug_fulfilled highBug (createBug_fulfilled highBug initialProvider)))) = 1"
proof -
  have e: "bugs initialProvider = []"
    by (simp add: initialProvider_def)
  show ?thesis
    using create_success_inserts_once[of highBug initialProvider] e by simp
qed

subsection \<open>Filters and reloads\<close>

text \<open>
  Claim C9, as stated, fails, in two ways. A \<^verbatim>\<open>setFilters\<close> call that passes the current
  selection object changes no state, so the effect does not run and no reload is
  triggered. Two \<^verbatim>\<open>setFilters\<close> calls made in one event handler are committed by one
  render, which triggers one reload, not one for each call.
\<close>

theorem setFilters_calls_without_a_reload_each:
  "react (SetFilters [filters initialProvider]) initialProvider = (initialProvider, [])
   \<and> snd (react (SetFilters [openOnly, openHigh]) initialProvider) = [FetchBugs openHigh]"
  by (simp add: queued_calls render_def commit_def effect_def loadBugs_call_def
      initialProvider_def openOnly_def openHigh_def)

text \<open>
  Claim C9, amended. The \<^verbatim>\<open>setFilters\<close> calls of one event handler are committed by one
  render, which makes the last selection passed the active one. When that is an object
  other than the current selection, the render triggers exactly one reload, carrying the
  new selection; when it is the current object, nothing changes and no reload is
  triggered. The completion of a reload, success or failure, triggers no request and
  leaves the selection as it is. Two calls made together while the first reload is
  unresolved produce exactly one further reload, carrying the latest selection; made in
  two event handlers, with new objects, they produce one reload each, the last carrying
  the latest selection. In every sequence of events the reloads are at most as many as
  the mounts and \<^verbatim>\<open>setFilters\<close> calls.
\<close>

theorem render_reloads_once_per_filter_change:
  "(calls \<noteq> [] \<and> identity (last calls) \<noteq> identity (filters st) \<longrightarrow>
      react (SetFilters calls) st
        = (st\<lparr>filters := last calls, loading := True, error := None\<rparr>,
           [FetchBugs (last calls)]))
   \<and> (calls \<noteq> [] \<and> identity (last calls) = identity (filters st) \<longrightarrow>
        react (SetFilters calls) st = (st, []))
   \<and> react (LoadFulfilled d) st = (st\<lparr>bugs := d, loading := False\<rparr>, [])
   \<and> snd (react (LoadRejected err) st) = []
   \<and> filters (fst (react (LoadRejected err) st)) = filters st
   \<and> (identity latest \<noteq> identity (filters st) \<longrightarrow>
        snd (run [Mount, SetFilters [newFilters, latest]] st)
          = [FetchBugs (filters st), FetchBugs latest])
   \<and> (identity newFilters \<noteq> identity (filters st) \<and> identity latest \<noteq> identity newFilters \<longrightarrow>
        snd (run [Mount, SetFilters [newFilters], SetFilters [latest]] st)
          = [FetchBugs (filters st), FetchBugs newFilters, FetchBugs latest])
   \<and> length (filter isReload (snd (run es st))) \<le> sum_list (map reloadCalls es)"
proof -
  have 1: "calls \<noteq> [] \<and> identity (last calls) \<noteq> identity (filters st) \<Longrightarrow>
      react (SetFilters calls) st
        = (st\<lparr>filters := last calls, loading := True, error := None\<rparr>,
           [FetchBugs (last calls)])"
    by (simp add: queued_calls render_def commit_def effect_def loadBugs_call_def)
  have 2: "calls \<noteq> [] \<and> identity (last calls) = identity (filters st) \<Longrightarrow>
      react (SetFilters calls) st = (st, [])"
    by (simp add: queued_calls render_def commit_def effect_def)
  have 3: "react (LoadFulfilled d) st = (st\<lparr>bugs := d, loading := False\<rparr>, [])"
    by (simp add: effect_def loadBugs_fulfilled_def)
  have 4: "snd (react (LoadRejected err) st) = []
       \<and> filters (fst (react (LoadRejected err) st)) = filters st"
    by (simp add: effect_def loadBugs_rejected_def)
  have 5: "identity latest \<noteq> identity (filters st) \<Longrightarrow>
        snd (run [Mount, SetFilters [newFilters, latest]] st)
          = [FetchBugs (filters st), FetchBugs latest]"
    by (simp add: queued_calls render_def commit_def effect_def loadBugs_call_def)
  have 6: "identity newFilters \<noteq> identity (filters st) \<and> identity latest \<noteq> identity newFilters \<Longrightarrow>
        snd (run [Mount, SetFilters [newFilters], SetFilters [latest]] st)
          = [FetchBugs (filters st), FetchBugs newFilters, FetchBugs latest]"
    by (simp add: queued_calls render_def commit_def effect_def loadBugs_call_def)
  have 7: "length (filter isReload (snd (run es st))) \<le> sum_list (map reloadCalls es)"
    using run_reloads[of es st] ticks_le_calls[of es] by (rule order_trans)
  show ?thesis using 1 2 3 4 5 6 7 by blast
qed

theorem render_reloads_once_per_filter_change_witness:
  "react (SetFilters [openOnly]) initialProvider
     = (initialProvider\<lparr>filters := openOnly, loading := True, error := None\<rparr>,
        [FetchBugs openOnly])
   \<and> react (SetFilters [filters initialProvider]) initialProvider = (initialProvider, [])
   \<and> react (LoadFulfilled [highBug]) initialProvider
       = (initialProvider\<lparr>bugs := [highBug], loading := False\<rparr>, [])
   \<and> snd (run [Mount, SetFilters [openOnly, openHigh]] initialProvider)
       = [FetchBugs (filters initialProvider), FetchBugs openHigh]
   \<and> snd (run [Mount, SetFilters [openOnly], SetFilters [openHigh]] initialProvider)
       = [FetchBugs (filters initialProvider), FetchBugs openOnly, FetchBugs openHigh]
   \<and> length (filter isReload (snd (run [Mount, SetFilters [openOnly, openHigh],
        LoadFulfilled [], LoadFulfilled []] initialProvider))) \<le> 3"
proof -
  note t = render_reloads_once_per_filter_change
  have i: "identity openOnly \<noteq> identity (filters initialProvider)"
    "identity openHigh \<noteq> identity (filters initialProvider)"
    "identity openHigh \<noteq> identity openOnly"
    by (simp_all add: openOnly_def openHigh_def initialProvider_def)
  have a: "react (SetFilters [openOnly]) initialProvider
     = (initialProvider\<lparr>filters := openOnly, loading := True, error := None\<rparr>,
        [FetchBugs openOnly])"
    using t[of "[openOnly]" initialProvider] i by simp
  have b: "react (SetFilters [filters initialProvider]) initialProvider = (initialProvider, [])"
    using t[of "[filters initialProvider]" initialProvider] by simp
  have c: "react (LoadFulfilled [highBug]) initialProvider
       = (initialProvider\<lparr>bugs := [highBug], loading := False\<rparr>, [])"
    using t[of "[openOnly]" initialProvider "[highBug]"] by simp
  have d: "snd (run [Mount, SetFilters [openOnly, openHigh]] initialProvider)
       = [FetchBugs (filters initialProvider), FetchBugs openHigh]"
    using t[of "[openOnly]" initialProvider "[]" "Thrown [] []" openHigh openOnly] i by blast
  have e: "snd (run [Mount, SetFilters [openOnly], SetFilters [openHigh]] initialProvider)
       = [FetchBugs (filters initialProvider), FetchBugs openOnly, FetchBugs openHigh]"
    using t[of "[openOnly]" initialProvider "[]" "Thrown [] []" openHigh openOnly] i by blast
  have "sum_list (map reloadCalls [Mount, SetFilters [openOnly, openHigh],
        LoadFulfilled [], LoadFulfilled []]) = 3"
    by simp
  then have f: "length (filter isReload (snd (run [Mount, SetFilters [openOnly, openHigh],
        LoadFulfilled [], LoadFulfilled []] initialProvider))) \<le> 3"
    using t[of "[openOnly]" initialProvider "[]" "Thrown [] []" openHigh openOnly
        "[Mount, SetFilters [openOnly, openHigh], LoadFulfilled [], LoadFulfilled []]"]
    by presburger
  show ?thesis using a b c d e f by blast
qed

end
